theory Spec2Isabelle
  imports Complex_Main "HOL-Library.Word"
begin

unbundle bit_operations_syntax

section \<open>Storage-layer vocabulary used by \<^verbatim>\<open>pg_index_reclaim.c\<close>\<close>

text \<open>
  The extension is one C file written against PostgreSQL's page and B-tree headers
  (\<^verbatim>\<open>storage/bufpage.h\<close>, \<^verbatim>\<open>storage/itemid.h\<close>, \<^verbatim>\<open>access/nbtree.h\<close>).
  The constants below are the values of a default build: 8 kB blocks, 8-byte maximum
  alignment, a 24-byte page header, 4-byte line pointers and a 16-byte B-tree special area.
  Block numbers and offset numbers are unsigned machine integers in C; they are only
  compared and incremented within the page's bounds, so they are natural numbers here.
\<close>

type_synonym BlockNumber = nat
type_synonym OffsetNumber = nat
type_synonym Size = nat

abbreviation (input) BLCKSZ :: nat where "BLCKSZ \<equiv> 8192"
abbreviation (input) SizeOfPageHeaderData :: nat where "SizeOfPageHeaderData \<equiv> 24"
abbreviation (input) sizeof_ItemIdData :: nat where "sizeof_ItemIdData \<equiv> 4"
abbreviation (input) sizeof_BTPageOpaqueData :: nat where "sizeof_BTPageOpaqueData \<equiv> 16"
abbreviation (input) sizeof_IndexTupleData :: nat where "sizeof_IndexTupleData \<equiv> 8"

abbreviation (input) P_NONE :: BlockNumber where "P_NONE \<equiv> 0"
abbreviation (input) InvalidBlockNumber :: BlockNumber where "InvalidBlockNumber \<equiv> 4294967295"
abbreviation (input) InvalidOffsetNumber :: OffsetNumber where "InvalidOffsetNumber \<equiv> 0"
abbreviation (input) FirstOffsetNumber :: OffsetNumber where "FirstOffsetNumber \<equiv> 1"
abbreviation (input) P_HIKEY :: OffsetNumber where "P_HIKEY \<equiv> 1"
abbreviation (input) P_FIRSTKEY :: OffsetNumber where "P_FIRSTKEY \<equiv> 2"

abbreviation (input) BTP_LEAF :: "16 word" where "BTP_LEAF \<equiv> 1"
abbreviation (input) BTP_DELETED :: "16 word" where "BTP_DELETED \<equiv> 4"
abbreviation (input) BTP_HALF_DEAD :: "16 word" where "BTP_HALF_DEAD \<equiv> 16"

abbreviation (input) LP_UNUSED :: nat where "LP_UNUSED \<equiv> 0"
abbreviation (input) LP_NORMAL :: nat where "LP_NORMAL \<equiv> 1"

abbreviation (input) BTREE_AM_OID :: nat where "BTREE_AM_OID \<equiv> 403"

definition MAXALIGN :: "nat \<Rightarrow> nat" where
  "MAXALIGN n = ((n + 7) div 8) * 8"

text \<open>
  An index tuple carries a block number in its TID (the downlink, on internal pages) and
  its key bytes. A line pointer has its two-bit state and the 15-bit length of the tuple it
  points to; the tuple stored at \<^verbatim>\<open>lp_off\<close> is kept with the line pointer, so that byte
  offsets inside the page are not modelled.
\<close>

record IndexTupleData =
  t_tid_block :: BlockNumber
  t_key :: "nat list"

record ItemIdData =
  lp_flags :: nat
  lp_len :: nat
  lp_tuple :: IndexTupleData

text \<open>
  A page is its header (\<^verbatim>\<open>pd_upper\<close>, the page-size field, the free-line-pointer hint),
  its line pointer array and the B-tree opaque data of its special area. \<^verbatim>\<open>pd_lower\<close> is
  the end of the line pointer array, as \<^verbatim>\<open>PageGetMaxOffsetNumber\<close> reads it.
\<close>

record Page =
  pd_has_free_lines :: bool
  pd_upper :: nat
  pd_pagesize :: nat
  pd_linp :: "ItemIdData list"
  btpo_prev :: BlockNumber
  btpo_next :: BlockNumber
  btpo_level :: nat
  btpo_flags :: "16 word"
  btpo_cycleid :: nat

definition pd_lower :: "Page \<Rightarrow> nat" where
  "pd_lower page = SizeOfPageHeaderData + sizeof_ItemIdData * length (pd_linp page)"

definition pd_special :: "Page \<Rightarrow> nat" where
  "pd_special page = BLCKSZ - MAXALIGN sizeof_BTPageOpaqueData"

definition PageIsNew :: "Page \<Rightarrow> bool" where
  "PageIsNew page \<longleftrightarrow> pd_upper page = 0"

definition PageGetPageSize :: "Page \<Rightarrow> nat" where
  "PageGetPageSize page = pd_pagesize page"

definition PageGetMaxOffsetNumber :: "Page \<Rightarrow> OffsetNumber" where
  "PageGetMaxOffsetNumber page = length (pd_linp page)"

text \<open>Offsets are 1-based; every caller in the source stays within \<open>1..maxoff\<close>.\<close>

definition PageGetItemId :: "Page \<Rightarrow> OffsetNumber \<Rightarrow> ItemIdData" where
  "PageGetItemId page offnum = pd_linp page ! (offnum - 1)"

definition ItemIdIsUsed :: "ItemIdData \<Rightarrow> bool" where
  "ItemIdIsUsed itemid \<longleftrightarrow> lp_flags itemid \<noteq> LP_UNUSED"

definition ItemIdHasStorage :: "ItemIdData \<Rightarrow> bool" where
  "ItemIdHasStorage itemid \<longleftrightarrow> lp_len itemid \<noteq> 0"

definition ItemIdGetLength :: "ItemIdData \<Rightarrow> nat" where
  "ItemIdGetLength itemid = lp_len itemid"

definition P_ISLEAF :: "Page \<Rightarrow> bool" where
  "P_ISLEAF page \<longleftrightarrow> btpo_flags page AND BTP_LEAF \<noteq> 0"

definition P_ISDELETED :: "Page \<Rightarrow> bool" where
  "P_ISDELETED page \<longleftrightarrow> btpo_flags page AND BTP_DELETED \<noteq> 0"

definition P_ISHALFDEAD :: "Page \<Rightarrow> bool" where
  "P_ISHALFDEAD page \<longleftrightarrow> btpo_flags page AND BTP_HALF_DEAD \<noteq> 0"

definition P_RIGHTMOST :: "Page \<Rightarrow> bool" where
  "P_RIGHTMOST page \<longleftrightarrow> btpo_next page = P_NONE"

definition P_FIRSTDATAKEY :: "Page \<Rightarrow> OffsetNumber" where
  "P_FIRSTDATAKEY page = (if P_RIGHTMOST page then P_HIKEY else P_FIRSTKEY)"

text \<open>
  \<^verbatim>\<open>PageGetFreeSpace\<close>: the hole between the line pointer array and the tuple area, less
  one line pointer, and 0 when not even a line pointer fits.
\<close>

definition PageGetFreeSpace :: "Page \<Rightarrow> Size" where
  "PageGetFreeSpace page =
     (let space = int (pd_upper page) - int (pd_lower page)
      in if space < int sizeof_ItemIdData then 0
         else nat (space - int sizeof_ItemIdData))"

text \<open>
  \<^verbatim>\<open>PageAddItem(page, item, size, offsetNumber, false, false)\<close>, the only form the source
  calls (no overwrite, not a heap page). With \<^verbatim>\<open>InvalidOffsetNumber\<close> the item goes to the
  first recyclable line pointer when the page's hint says there is one, and otherwise to
  the first slot past the end; with a valid offset below the end the existing line
  pointers are shifted up. The item does not fit when the new \<^verbatim>\<open>pd_lower\<close> would pass the
  new \<^verbatim>\<open>pd_upper\<close>, and then \<^verbatim>\<open>InvalidOffsetNumber\<close> is returned and the page is
  unchanged (but for a wrong hint that was reset). The new line pointer is
  \<^verbatim>\<open>LP_NORMAL\<close> with the given length.
\<close>

definition free_slot :: "Page \<Rightarrow> OffsetNumber option" where
  "free_slot page =
     find (\<lambda>off. \<not> ItemIdIsUsed (PageGetItemId page off) \<and>
                  \<not> ItemIdHasStorage (PageGetItemId page off))
          [FirstOffsetNumber ..< Suc (PageGetMaxOffsetNumber page)]"

definition PageAddItem ::
  "Page \<Rightarrow> IndexTupleData \<Rightarrow> Size \<Rightarrow> OffsetNumber \<Rightarrow> OffsetNumber \<times> Page" where
  "PageAddItem page item sz offsetNumber =
     (let limit = Suc (PageGetMaxOffsetNumber page);
          needshuffle = (offsetNumber \<noteq> InvalidOffsetNumber \<and> offsetNumber < limit);
          off = (if offsetNumber \<noteq> InvalidOffsetNumber then offsetNumber
                 else if pd_has_free_lines page
                      then (case free_slot page of Some k \<Rightarrow> k | None \<Rightarrow> limit)
                      else limit);
          page1 = (if offsetNumber = InvalidOffsetNumber \<and> pd_has_free_lines page
                      \<and> free_slot page = None
                   then page\<lparr>pd_has_free_lines := False\<rparr> else page);
          lower = (if off = limit \<or> needshuffle
                   then pd_lower page1 + sizeof_ItemIdData else pd_lower page1);
          upper = int (pd_upper page1) - int (MAXALIGN sz);
          itemId = \<lparr>lp_flags = LP_NORMAL, lp_len = sz, lp_tuple = item\<rparr>
      in if off > limit then (InvalidOffsetNumber, page1)
         else if int lower > upper then (InvalidOffsetNumber, page1)
         else (off,
               page1\<lparr>pd_linp :=
                        (if needshuffle
                         then take (off - 1) (pd_linp page1) @ itemId # drop (off - 1) (pd_linp page1)
                         else if off = limit then pd_linp page1 @ [itemId]
                         else (pd_linp page1)[off - 1 := itemId]),
                      pd_upper := nat upper\<rparr>))"

text \<open>
  \<^verbatim>\<open>PageIndexTupleDelete\<close> removes one line pointer and gives the tuple's aligned size
  back; \<^verbatim>\<open>PageIndexMultiDelete\<close> does so one by one, last first, for up to two offsets,
  and otherwise rebuilds the line pointer array without the listed offsets and compacts
  the tuples against the special area. \<^verbatim>\<open>PageIndexTupleOverwrite\<close> replaces a tuple in
  place when the size change fits, keeping the line pointer's state. Their refusals of a
  corrupted page (an \<^verbatim>\<open>ERROR\<close> inside PostgreSQL) are not modelled: the functions below
  are total.
\<close>

definition PageIndexTupleDelete :: "Page \<Rightarrow> OffsetNumber \<Rightarrow> Page" where
  "PageIndexTupleDelete page offnum =
     page\<lparr>pd_linp := take (offnum - 1) (pd_linp page) @ drop offnum (pd_linp page),
          pd_upper := pd_upper page + MAXALIGN (ItemIdGetLength (PageGetItemId page offnum))\<rparr>"

definition PageIndexMultiDelete :: "Page \<Rightarrow> OffsetNumber list \<Rightarrow> Page" where
  "PageIndexMultiDelete page itemnos =
     (if length itemnos \<le> 2 then fold (\<lambda>off p. PageIndexTupleDelete p off) (rev itemnos) page
      else let kept = map (PageGetItemId page)
                        (filter (\<lambda>off. off \<notin> set itemnos)
                           [FirstOffsetNumber ..< Suc (PageGetMaxOffsetNumber page)])
           in page\<lparr>pd_linp := kept,
                   pd_upper := pd_special page - sum_list (map (\<lambda>i. MAXALIGN (lp_len i)) kept)\<rparr>)"

definition PageIndexTupleOverwrite ::
  "Page \<Rightarrow> OffsetNumber \<Rightarrow> IndexTupleData \<Rightarrow> Size \<Rightarrow> bool \<times> Page" where
  "PageIndexTupleOverwrite page offnum newtup newsize =
     (let tupid = PageGetItemId page offnum;
          oldsize = MAXALIGN (ItemIdGetLength tupid);
          alignednewsize = MAXALIGN newsize
      in if int alignednewsize > int oldsize + (int (pd_upper page) - int (pd_lower page))
         then (False, page)
         else (True,
               page\<lparr>pd_linp := (pd_linp page)[offnum - 1 := tupid\<lparr>lp_len := newsize, lp_tuple := newtup\<rparr>],
                    pd_upper := nat (int (pd_upper page) + (int oldsize - int alignednewsize))\<rparr>))"


section \<open>The index as the code sees it\<close>

text \<open>
  The relation is a store of pages addressed by block number (the buffer manager's
  \<^verbatim>\<open>ReadBufferExtended\<close> followed by \<^verbatim>\<open>BufferGetPage\<close>), the metapage's root pointer,
  and the bookkeeping the code drives: which buffers the backend holds a content lock on,
  which relation-level locks it took, which buffers it marked dirty and which pages it
  logged as full-page images. Waiting for a lock held by another backend, and read errors
  of the storage layer, are outside the model.

  \<^verbatim>\<open>LockBuffer\<close> records the lock and always returns. The buffer lock of PostgreSQL is
  not re-entrant: a request for a buffer on which this backend already holds a lock never
  returns, and \<^verbatim>\<open>ReadBufferExtended\<close> raises an error for a block past the end of the
  relation. A statement that a call of \<^verbatim>\<open>execute_merge\<close> returns is therefore made
  under the hypothesis \<open>blocks_lockable\<close> below: the blocks the call may lock exist, are
  pairwise distinct and are not locked when the call starts.
\<close>

datatype buflock = BT_READ | BT_WRITE

datatype lockmode = AccessShareLock | ShareUpdateExclusiveLock

record IndexState =
  rd_relam :: nat
  needswal :: bool
  nblocks :: nat
  btm_root :: BlockNumber
  store :: "BlockNumber \<Rightarrow> Page"
  buf_locks :: "(BlockNumber \<times> buflock) list"
  rel_locks :: "lockmode list"
  dirty :: "BlockNumber list"
  wal :: "BlockNumber list"

definition LockBuffer :: "BlockNumber \<Rightarrow> buflock \<Rightarrow> IndexState \<Rightarrow> IndexState" where
  "LockBuffer buf mode st = st\<lparr>buf_locks := (buf, mode) # buf_locks st\<rparr>"

fun release_first :: "BlockNumber \<Rightarrow> (BlockNumber \<times> buflock) list \<Rightarrow> (BlockNumber \<times> buflock) list" where
  "release_first buf [] = []"
| "release_first buf (l # ls) = (if fst l = buf then ls else l # release_first buf ls)"

definition UnlockReleaseBuffer :: "BlockNumber \<Rightarrow> IndexState \<Rightarrow> IndexState" where
  "UnlockReleaseBuffer buf st = st\<lparr>buf_locks := release_first buf (buf_locks st)\<rparr>"

definition MarkBufferDirty :: "BlockNumber \<Rightarrow> IndexState \<Rightarrow> IndexState" where
  "MarkBufferDirty buf st = st\<lparr>dirty := dirty st @ [buf]\<rparr>"

definition log_newpage_buffer :: "BlockNumber \<Rightarrow> IndexState \<Rightarrow> IndexState" where
  "log_newpage_buffer buf st = st\<lparr>wal := wal st @ [buf]\<rparr>"

text \<open>A write through a page pointer into a locked buffer.\<close>

definition update_page :: "BlockNumber \<Rightarrow> (Page \<Rightarrow> Page) \<Rightarrow> IndexState \<Rightarrow> IndexState" where
  "update_page blkno f st = st\<lparr>store := (store st)(blkno := f (store st blkno))\<rparr>"

section \<open>\<^verbatim>\<open>execute_merge\<close>\<close>

text \<open>
  The offsets \<open>firstdata..maxoff\<close> of a page whose line pointer is in use: the loop at
  lines 774-785 that fills \<^verbatim>\<open>left_offsets\<close>, and the one at lines 964-972 that fills
  \<^verbatim>\<open>deletable\<close>.
\<close>

definition used_offsets :: "Page \<Rightarrow> OffsetNumber \<Rightarrow> OffsetNumber \<Rightarrow> OffsetNumber list" where
  "used_offsets page firstdata maxoff =
     filter (\<lambda>offnum. ItemIdIsUsed (PageGetItemId page offnum)) [firstdata ..< Suc maxoff]"

text \<open>
  The byte count of the capacity re-check (lines 705-724): the aligned lengths of the line
  pointers in use, from the first data key to the last offset.
\<close>

definition used_bytes :: "Page \<Rightarrow> OffsetNumber \<Rightarrow> OffsetNumber \<Rightarrow> Size" where
  "used_bytes page firstdata maxoff =
     sum_list (map (\<lambda>offnum. MAXALIGN (ItemIdGetLength (PageGetItemId page offnum)))
                   (used_offsets page firstdata maxoff))"

text \<open>
  Step 1 of the critical section (lines 826-858): every collected offset of the left page
  is handed to \<^verbatim>\<open>PageAddItem\<close> on the right page with \<^verbatim>\<open>InvalidOffsetNumber\<close>; a failed
  insertion is logged and the loop goes on.
\<close>

definition add_left_items ::
  "BlockNumber \<Rightarrow> BlockNumber \<Rightarrow> OffsetNumber list \<Rightarrow> IndexState \<Rightarrow> IndexState" where
  "add_left_items left_block right_block left_offsets st =
     fold (\<lambda>offnum s.
             let itemid = PageGetItemId (store s left_block) offnum
             in update_page right_block
                  (\<lambda>right_page. snd (PageAddItem right_page (lp_tuple itemid)
                                        (ItemIdGetLength itemid) InvalidOffsetNumber)) s)
          left_offsets st"

text \<open>
  The dummy high key of a half-dead page (lines 988-995): a bare tuple header, no
  attributes, top parent \<^verbatim>\<open>InvalidBlockNumber\<close>.
\<close>

definition trunctuple :: IndexTupleData where
  "trunctuple = \<lparr>t_tid_block = InvalidBlockNumber, t_key = []\<rparr>"

definition set_dummy_high_key :: "Page \<Rightarrow> Page" where
  "set_dummy_high_key left_page =
     (if PageGetMaxOffsetNumber left_page \<ge> P_HIKEY \<and> ItemIdIsUsed (PageGetItemId left_page P_HIKEY)
      then snd (PageIndexTupleOverwrite left_page P_HIKEY trunctuple sizeof_IndexTupleData)
      else snd (PageAddItem left_page trunctuple sizeof_IndexTupleData P_HIKEY))"

text \<open>
  The critical section, lines 814-1068. The high-key block at lines 880-922 only logs and
  changes nothing, so it has no counterpart here.
\<close>

definition merge_critical_section ::
  "BlockNumber \<Rightarrow> BlockNumber \<Rightarrow> BlockNumber \<Rightarrow> OffsetNumber \<Rightarrow> OffsetNumber \<Rightarrow>
   OffsetNumber list \<Rightarrow> IndexState \<Rightarrow> IndexState" where
  "merge_critical_section left_block right_block leftsib left_firstdata left_maxoff left_offsets st =
     (let s1 = add_left_items left_block right_block left_offsets st;
          s2 = update_page right_block (\<lambda>p. p\<lparr>btpo_prev := leftsib\<rparr>) s1;
          s3 = (if leftsib \<noteq> P_NONE
                then MarkBufferDirty leftsib
                       (update_page leftsib (\<lambda>p. p\<lparr>btpo_next := right_block\<rparr>) s2)
                else s2);
          ndeletable = int left_maxoff - int left_firstdata + 1;
          deletable = used_offsets (store s3 left_block) left_firstdata left_maxoff;
          s4 = (if ndeletable > 0 \<and> length deletable > 0
                then update_page left_block (\<lambda>p. PageIndexMultiDelete p deletable) s3
                else s3);
          s5 = update_page left_block (\<lambda>p. p\<lparr>btpo_flags := btpo_flags p OR BTP_HALF_DEAD\<rparr>) s4;
          s6 = update_page left_block set_dummy_high_key s5;
          s7 = update_page left_block (\<lambda>p. p\<lparr>btpo_cycleid := 0\<rparr>) s6;
          s8 = MarkBufferDirty right_block (MarkBufferDirty left_block s7)
      in if needswal s8
         then (let s9 = log_newpage_buffer right_block (log_newpage_buffer left_block s8)
               in if leftsib \<noteq> P_NONE then log_newpage_buffer leftsib s9 else s9)
         else s8)"

text \<open>
  The release of every lock held once all four pages may be locked (lines 735-740,
  752-757, 797-802 and 1078-1083): left sibling and right sibling when they were
  locked, then right, then left.
\<close>

definition release_all ::
  "BlockNumber \<Rightarrow> BlockNumber \<Rightarrow> BlockNumber \<Rightarrow> BlockNumber \<Rightarrow> bool \<Rightarrow> IndexState \<Rightarrow> IndexState" where
  "release_all left_block right_block leftsib rightsib is_rightmost st =
     (let s1 = (if leftsib \<noteq> P_NONE then UnlockReleaseBuffer leftsib st else st);
          s2 = (if \<not> is_rightmost then UnlockReleaseBuffer rightsib s1 else s1)
      in UnlockReleaseBuffer left_block (UnlockReleaseBuffer right_block s2))"

text \<open>
  \<^verbatim>\<open>execute_merge\<close>, lines 504-1097, check by check in the order of the source. The result
  is the returned flag and the state the call leaves behind. \<^verbatim>\<open>nleft_items\<close> is a C
  \<^verbatim>\<open>int\<close> computed from two 16-bit offsets, so it can be zero or negative. The calls of
  \<^verbatim>\<open>dump_page\<close> before and after read-lock a page, log it and release it; they leave no
  trace in the state.
\<close>

definition execute_merge :: "BlockNumber \<Rightarrow> BlockNumber \<Rightarrow> IndexState \<Rightarrow> bool \<times> IndexState" where
  "execute_merge left_block right_block st0 =
     (let st1 = LockBuffer left_block BT_WRITE st0;
          left_page = store st1 left_block
      in if PageIsNew left_page then (False, UnlockReleaseBuffer left_block st1)
      else if \<not> P_ISLEAF left_page then (False, UnlockReleaseBuffer left_block st1)
      else if P_ISDELETED left_page then (False, UnlockReleaseBuffer left_block st1)
      else if P_ISHALFDEAD left_page then (False, UnlockReleaseBuffer left_block st1)
      else
      let st2 = LockBuffer right_block BT_WRITE st1;
          right_page = store st2 right_block;
          abort2 = (False, UnlockReleaseBuffer left_block (UnlockReleaseBuffer right_block st2))
      in if PageIsNew right_page then abort2
      else if \<not> P_ISLEAF right_page then abort2
      else if P_ISDELETED right_page then abort2
      else if P_ISHALFDEAD right_page then abort2
      else if btpo_prev right_page \<noteq> left_block then abort2
      else
      let leftsib = btpo_prev left_page;
          rightsib = btpo_next right_page;
          is_rightmost = P_RIGHTMOST right_page;
          st3 = (if \<not> is_rightmost then LockBuffer rightsib BT_WRITE st2 else st2)
      in if \<not> is_rightmost \<and> btpo_prev (store st3 rightsib) \<noteq> right_block
         then (False, UnlockReleaseBuffer left_block
                        (UnlockReleaseBuffer right_block (UnlockReleaseBuffer rightsib st3)))
      else
      let st4 = (if leftsib \<noteq> P_NONE then LockBuffer leftsib BT_WRITE st3 else st3)
      in if leftsib \<noteq> P_NONE \<and> btpo_next (store st4 leftsib) \<noteq> left_block
         then (False, release_all left_block right_block leftsib rightsib is_rightmost st4)
      else
      let left_maxoff = PageGetMaxOffsetNumber left_page;
          right_maxoff = PageGetMaxOffsetNumber right_page;
          left_firstdata = P_FIRSTDATAKEY left_page;
          right_firstdata = P_FIRSTDATAKEY right_page;
          total_used = used_bytes left_page left_firstdata left_maxoff
                       + used_bytes right_page right_firstdata right_maxoff;
          available_space = PageGetFreeSpace right_page
      in if total_used > available_space
         then (False, release_all left_block right_block leftsib rightsib is_rightmost st4)
      else if int left_maxoff - int left_firstdata + 1 \<le> 0
         then (False, release_all left_block right_block leftsib rightsib is_rightmost st4)
      else
      let left_offsets = used_offsets left_page left_firstdata left_maxoff
      in if length left_offsets = 0
         then (False, release_all left_block right_block leftsib rightsib is_rightmost st4)
      else (True, release_all left_block right_block leftsib rightsib is_rightmost
                    (merge_critical_section left_block right_block leftsib
                       left_firstdata left_maxoff left_offsets st4)))"


section \<open>\<^verbatim>\<open>find_leftmost_leaf\<close> and \<^verbatim>\<open>analyze_index_pages\<close>\<close>

text \<open>
  Both functions only read: each page is read-locked, inspected and released before the
  next one is touched, so they take the page store and leave the state alone. The
  descent and the leaf scan are loops with no structural bound, hence partial functions
  whose value \<open>None\<close> stands for a loop that does not return.
\<close>

partial_function (option) descend_leftmost :: "(BlockNumber \<Rightarrow> Page) \<Rightarrow> BlockNumber \<Rightarrow> BlockNumber option" where
  "descend_leftmost pgs blkno =
     (let page = pgs blkno
      in if PageIsNew page \<or> P_ISDELETED page then Some P_NONE
         else if P_ISLEAF page then Some blkno
         else if PageGetMaxOffsetNumber page < P_FIRSTDATAKEY page then Some P_NONE
         else if \<not> ItemIdIsUsed (PageGetItemId page (P_FIRSTDATAKEY page)) then Some P_NONE
         else if t_tid_block (lp_tuple (PageGetItemId page (P_FIRSTDATAKEY page))) = InvalidBlockNumber
              then Some P_NONE
         else descend_leftmost pgs (t_tid_block (lp_tuple (PageGetItemId page (P_FIRSTDATAKEY page)))))"

definition find_leftmost_leaf :: "IndexState \<Rightarrow> BlockNumber option" where
  "find_leftmost_leaf st =
     (if btm_root st = P_NONE then Some P_NONE else descend_leftmost (store st) (btm_root st))"

record PageAnalysis =
  blockno :: BlockNumber
  is_leaf :: bool
  is_rightmost :: bool
  is_deleted :: bool
  is_halfdead :: bool
  used_space :: Size
  free_space :: Size
  item_count :: int
  usage_pct :: real

record MergeCandidate =
  left_page :: BlockNumber
  right_page :: BlockNumber
  left_usage_pct :: real
  right_usage_pct :: real
  total_items :: int
  estimated_space :: Size
  can_merge :: bool

text \<open>
  The usable capacity \<^verbatim>\<open>BLCKSZ - SizeOfPageHeaderData - MAXALIGN(sizeof(BTPageOpaqueData))\<close>,
  8152 bytes.
\<close>

definition total_space :: Size where
  "total_space = BLCKSZ - SizeOfPageHeaderData - MAXALIGN sizeof_BTPageOpaqueData"

text \<open>
  The statistics of one live leaf page (lines 337-373). The loop at lines 345-352 adds the
  aligned length of every line pointer from the first data key on, used or not. The C
  \<^verbatim>\<open>double\<close> of \<^verbatim>\<open>usage_pct\<close> is a real number here: the rounding of the division and
  of the multiplication is not modelled. For byte counts up to the usable capacity the
  rounded value lies on the same side of every integer threshold from 1 to 100 as the
  exact one, so the selector's comparisons are not affected.
\<close>

definition analyze_page :: "BlockNumber \<Rightarrow> Page \<Rightarrow> PageAnalysis" where
  "analyze_page blkno page =
     (let offs = [P_FIRSTDATAKEY page ..< Suc (PageGetMaxOffsetNumber page)];
          used = sum_list (map (\<lambda>offnum. MAXALIGN (ItemIdGetLength (PageGetItemId page offnum))) offs)
      in \<lparr>blockno = blkno, is_leaf = True, is_rightmost = P_RIGHTMOST page,
          is_deleted = False, is_halfdead = False,
          used_space = used, free_space = PageGetFreeSpace page,
          item_count = int (length offs),
          usage_pct = (if total_space > 0 then real used / real total_space * 100 else 0)\<rparr>)"

text \<open>
  The leaf scan, lines 269-385: \<open>pages\<close> is the filled prefix of the analysis array, so
  \<^verbatim>\<open>total_pages\<close> is its length.
\<close>

partial_function (option) scan_leaf_pages ::
  "(BlockNumber \<Rightarrow> Page) \<Rightarrow> nat \<Rightarrow> BlockNumber \<Rightarrow> PageAnalysis list \<Rightarrow> PageAnalysis list option" where
  "scan_leaf_pages pgs num_pages blkno pages =
     (if blkno \<noteq> P_NONE \<and> length pages < num_pages
      then (let page = pgs blkno
            in if PageIsNew page then Some pages
               else if PageGetPageSize page \<noteq> BLCKSZ then Some pages
               else if P_ISDELETED page then scan_leaf_pages pgs num_pages (btpo_next page) pages
               else if \<not> P_ISLEAF page then Some pages
               else if P_ISHALFDEAD page then scan_leaf_pages pgs num_pages (btpo_next page) pages
               else scan_leaf_pages pgs num_pages (btpo_next page) (pages @ [analyze_page blkno page]))
      else Some pages)"

text \<open>
  \<^verbatim>\<open>Size\<close> is a 64-bit unsigned integer: the subtraction at line 466 wraps.
\<close>

definition Size_sub :: "Size \<Rightarrow> Size \<Rightarrow> Size" where
  "Size_sub a b = (a + 2 ^ 64 - b mod 2 ^ 64) mod 2 ^ 64"

text \<open>
  One round of the candidate loop, lines 404-486, for the analysed page \<open>left\<close>: the page
  store is read again for the left page's right link, the right page is the first entry
  of the analysis array with that block number. The comparison at line 470 is between
  \<^verbatim>\<open>double\<close>s; it is taken over the reals, with 0.9 exact. For an available capacity
  of at most 8152 bytes the rounded product has the same integer part as the exact one,
  so the comparison with the integer byte count comes out the same.
\<close>

definition select_candidate ::
  "(BlockNumber \<Rightarrow> Page) \<Rightarrow> PageAnalysis list \<Rightarrow> int \<Rightarrow> PageAnalysis \<Rightarrow> MergeCandidate option" where
  "select_candidate pgs pages max_pct_to_merge left =
     (if is_rightmost left then None
      else if PageIsNew (pgs (blockno left)) then None
      else if btpo_next (pgs (blockno left)) = P_NONE then None
      else case find (\<lambda>p. blockno p = btpo_next (pgs (blockno left))) pages of
        None \<Rightarrow> None
      | Some right \<Rightarrow>
          if is_deleted left \<or> is_halfdead left \<or> is_deleted right \<or> is_halfdead right then None
          else if usage_pct left > real_of_int max_pct_to_merge
                  \<and> usage_pct right > real_of_int max_pct_to_merge then None
          else
            let combined_used = used_space left + used_space right;
                avg_item_size = (if item_count right > 0
                                 then used_space right div nat (item_count right) else 0);
                total_available = (if \<not> is_rightmost right
                                   then Size_sub total_space (MAXALIGN avg_item_size)
                                   else total_space)
            in Some \<lparr>left_page = blockno left, right_page = blockno right,
                     left_usage_pct = usage_pct left, right_usage_pct = usage_pct right,
                     total_items = item_count left + item_count right,
                     estimated_space = combined_used,
                     can_merge = (real combined_used \<le> real total_available * 0.9)\<rparr>)"

definition select_candidates ::
  "(BlockNumber \<Rightarrow> Page) \<Rightarrow> PageAnalysis list \<Rightarrow> int \<Rightarrow> MergeCandidate list" where
  "select_candidates pgs pages max_pct_to_merge =
     List.map_filter (select_candidate pgs pages max_pct_to_merge) pages"

definition analyze_index_pages :: "IndexState \<Rightarrow> int \<Rightarrow> MergeCandidate list option" where
  "analyze_index_pages st max_pct_to_merge =
     (if nblocks st \<le> 1 then Some []
      else case find_leftmost_leaf st of
        None \<Rightarrow> None
      | Some leftmost_leaf \<Rightarrow>
          if leftmost_leaf = P_NONE then Some []
          else (case scan_leaf_pages (store st) (nblocks st) leftmost_leaf [] of
                  None \<Rightarrow> None
                | Some pages \<Rightarrow> Some (select_candidates (store st) pages max_pct_to_merge)))"

section \<open>The SQL-callable entry points\<close>

text \<open>
  \<^verbatim>\<open>ereport(ERROR, ...)\<close> leaves the function at once; the error is the left summand of
  the result, next to the state at the moment it is raised. \<open>rsinfo_ok\<close> says that the
  caller accepts a set. An analysis that does not return makes the whole call \<open>None\<close>.
\<close>

datatype error =
  ERRCODE_INVALID_PARAMETER_VALUE | ERRCODE_WRONG_OBJECT_TYPE | ERRCODE_FEATURE_NOT_SUPPORTED

definition index_open :: "lockmode \<Rightarrow> IndexState \<Rightarrow> IndexState" where
  "index_open mode st = st\<lparr>rel_locks := mode # rel_locks st\<rparr>"

definition index_close :: "lockmode \<Rightarrow> IndexState \<Rightarrow> IndexState" where
  "index_close mode st = st\<lparr>rel_locks := remove1 mode (rel_locks st)\<rparr>"

abbreviation (input) MAX_MERGES_PER_EXECUTION :: int where "MAX_MERGES_PER_EXECUTION \<equiv> 1"

text \<open>
  The \<^verbatim>\<open>foreach\<close> loop at lines 1172-1230 with its three counters. The sum at line 1195
  is taken in the integers.
\<close>

fun merge_loop ::
  "MergeCandidate list \<Rightarrow> int \<Rightarrow> int \<Rightarrow> int \<Rightarrow> IndexState \<Rightarrow> (int \<times> int) \<times> IndexState" where
  "merge_loop [] merges_attempted pages_merged space_reclaimed st =
     ((pages_merged, space_reclaimed), st)"
| "merge_loop (candidate # rest) merges_attempted pages_merged space_reclaimed st =
     (if merges_attempted \<ge> MAX_MERGES_PER_EXECUTION then ((pages_merged, space_reclaimed), st)
      else if can_merge candidate
      then (case execute_merge (left_page candidate) (right_page candidate) st of
              (True, st') \<Rightarrow>
                merge_loop rest (merges_attempted + 1) (pages_merged + 1)
                  (space_reclaimed + (int BLCKSZ - int (estimated_space candidate))) st'
            | (False, st') \<Rightarrow>
                merge_loop rest (merges_attempted + 1) pages_merged space_reclaimed st')
      else merge_loop rest merges_attempted pages_merged space_reclaimed st)"

definition pg_index_reclaim_execute ::
  "int \<Rightarrow> bool \<Rightarrow> IndexState \<Rightarrow> ((error + int \<times> int) \<times> IndexState) option" where
  "pg_index_reclaim_execute max_pct_to_merge rsinfo_ok st =
     (if max_pct_to_merge < 1 \<or> max_pct_to_merge > 100
      then Some (Inl ERRCODE_INVALID_PARAMETER_VALUE, st)
      else let rel = index_open ShareUpdateExclusiveLock st
      in if rd_relam rel \<noteq> BTREE_AM_OID then Some (Inl ERRCODE_WRONG_OBJECT_TYPE, rel)
      else if \<not> rsinfo_ok then Some (Inl ERRCODE_FEATURE_NOT_SUPPORTED, rel)
      else case analyze_index_pages rel max_pct_to_merge of
        None \<Rightarrow> None
      | Some merge_candidates \<Rightarrow>
          (case merge_loop merge_candidates 0 0 0 rel of
             (row, rel') \<Rightarrow> Some (Inr row, index_close ShareUpdateExclusiveLock rel')))"

text \<open>One result row of \<^verbatim>\<open>pg_index_reclaim_analyze\<close>, lines 1332-1340.\<close>

definition analyze_row ::
  "MergeCandidate \<Rightarrow> int \<times> int \<times> real \<times> real \<times> int \<times> int \<times> bool" where
  "analyze_row candidate =
     (int (left_page candidate), int (right_page candidate),
      left_usage_pct candidate, right_usage_pct candidate, total_items candidate,
      int BLCKSZ - int (estimated_space candidate), can_merge candidate)"

definition pg_index_reclaim_analyze ::
  "int \<Rightarrow> bool \<Rightarrow> IndexState \<Rightarrow>
   ((error + (int \<times> int \<times> real \<times> real \<times> int \<times> int \<times> bool) list) \<times> IndexState) option" where
  "pg_index_reclaim_analyze max_pct_to_merge rsinfo_ok st =
     (if max_pct_to_merge < 1 \<or> max_pct_to_merge > 100
      then Some (Inl ERRCODE_INVALID_PARAMETER_VALUE, st)
      else let rel = index_open AccessShareLock st
      in if rd_relam rel \<noteq> BTREE_AM_OID then Some (Inl ERRCODE_WRONG_OBJECT_TYPE, rel)
      else if \<not> rsinfo_ok then Some (Inl ERRCODE_FEATURE_NOT_SUPPORTED, rel)
      else case analyze_index_pages rel max_pct_to_merge of
        None \<Rightarrow> None
      | Some merge_candidates \<Rightarrow>
          Some (Inr (map analyze_row merge_candidates), index_close AccessShareLock rel))"

section \<open>Concrete indexes\<close>

text \<open>
  Small indexes on which the definitions are evaluated. A leaf built by \<open>leaf\<close> has its
  tuples packed against the special area, as \<^verbatim>\<open>PageInit\<close> and \<^verbatim>\<open>PageAddItem\<close> leave
  them; block 0 stands for the metapage.
\<close>

definition data_item :: "nat \<Rightarrow> nat \<Rightarrow> ItemIdData" where
  "data_item len k = \<lparr>lp_flags = LP_NORMAL, lp_len = len, lp_tuple = \<lparr>t_tid_block = 0, t_key = [k]\<rparr>\<rparr>"

definition leaf :: "ItemIdData list \<Rightarrow> BlockNumber \<Rightarrow> BlockNumber \<Rightarrow> Page" where
  "leaf items prev next =
     \<lparr>pd_has_free_lines = False,
      pd_upper = BLCKSZ - 16 - sum_list (map (\<lambda>i. MAXALIGN (lp_len i)) items),
      pd_pagesize = BLCKSZ, pd_linp = items, btpo_prev = prev, btpo_next = next,
      btpo_level = 0, btpo_flags = BTP_LEAF, btpo_cycleid = 0\<rparr>"

definition new_page :: Page where
  "new_page = \<lparr>pd_has_free_lines = False, pd_upper = 0, pd_pagesize = 0, pd_linp = [],
      btpo_prev = 0, btpo_next = 0, btpo_level = 0, btpo_flags = 0, btpo_cycleid = 0\<rparr>"

definition index_of :: "Page list \<Rightarrow> IndexState" where
  "index_of ps = \<lparr>rd_relam = BTREE_AM_OID, needswal = True, nblocks = length ps, btm_root = 1,
      store = (\<lambda>blkno. if blkno < length ps then ps ! blkno else new_page),
      buf_locks = [], rel_locks = [], dirty = [], wal = []\<rparr>"

text \<open>
  The blocks \<^verbatim>\<open>execute_merge\<close> may take a buffer lock on (lines 548, 587, 650, 672): the
  left and the right block, the right page's right sibling unless the right page is
  rightmost, and the left page's left sibling if it has one. The locks are requested in
  this order with no test that a block differs from one already locked, so the call can
  only return when the blocks are pairwise distinct, lie inside the relation and are not
  locked by this backend when the call starts; then every request is granted, and so are
  the read locks \<^verbatim>\<open>dump_page\<close> takes on the left and right block before them.
\<close>

definition lock_targets :: "BlockNumber \<Rightarrow> BlockNumber \<Rightarrow> IndexState \<Rightarrow> BlockNumber list" where
  "lock_targets left_block right_block st =
     [left_block, right_block]
     @ (if P_RIGHTMOST (store st right_block) then [] else [btpo_next (store st right_block)])
     @ (if btpo_prev (store st left_block) = P_NONE then [] else [btpo_prev (store st left_block)])"

definition blocks_lockable :: "BlockNumber \<Rightarrow> BlockNumber \<Rightarrow> IndexState \<Rightarrow> bool" where
  "blocks_lockable left_block right_block st \<longleftrightarrow>
     distinct (lock_targets left_block right_block st)
     \<and> list_all (\<lambda>blkno. blkno < nblocks st \<and> blkno \<notin> fst ` set (buf_locks st))
                 (lock_targets left_block right_block st)"

text \<open>
  The conditions under which \<^verbatim>\<open>execute_merge\<close> gives up before its critical section,
  read off the pages as they are when the call starts: an unusable left or right page, a
  right page whose left link is not the left page, a neighbour whose link back is wrong,
  and a byte count that exceeds the right page's free space.
\<close>

definition precondition_violation :: "BlockNumber \<Rightarrow> BlockNumber \<Rightarrow> IndexState \<Rightarrow> bool" where
  "precondition_violation left_block right_block st \<longleftrightarrow>
     (let L = store st left_block; R = store st right_block
      in PageIsNew L \<or> \<not> P_ISLEAF L \<or> P_ISDELETED L \<or> P_ISHALFDEAD L
         \<or> PageIsNew R \<or> \<not> P_ISLEAF R \<or> P_ISDELETED R \<or> P_ISHALFDEAD R
         \<or> btpo_prev R \<noteq> left_block
         \<or> (\<not> P_RIGHTMOST R \<and> btpo_prev (store st (btpo_next R)) \<noteq> right_block)
         \<or> (btpo_prev L \<noteq> P_NONE \<and> btpo_next (store st (btpo_prev L)) \<noteq> left_block)
         \<or> used_bytes L (P_FIRSTDATAKEY L) (PageGetMaxOffsetNumber L)
             + used_bytes R (P_FIRSTDATAKEY R) (PageGetMaxOffsetNumber R) > PageGetFreeSpace R)"

text \<open>
  A candidate gone stale: analysis saw 1 \<open>\<rightarrow>\<close> 2, then a split put block 3 between
  them.
\<close>

definition stale_index :: IndexState where
  "stale_index = index_of
     [new_page,
      leaf [data_item 16 20, data_item 16 10] 0 3,
      leaf [data_item 16 60, data_item 16 50] 3 0,
      leaf [data_item 16 40, data_item 16 30] 1 2]"

text \<open>
  The same split with the right page's left link not brought up to date: block 1 names
  block 3 as its right sibling, block 2 (rightmost, so without a high key) still names
  block 1 as its left sibling.
\<close>

definition relinked_index :: IndexState where
  "relinked_index = index_of
     [new_page,
      leaf [data_item 16 20, data_item 16 10] 0 3,
      leaf [data_item 16 50] 1 0,
      leaf [data_item 16 40, data_item 16 30] 1 2]"

text \<open>
  The checks of stages 1 and 2 all passing: both pages usable leaves, the right page's
  left link naming the left page, and each neighbour that exists linking back.
\<close>

definition pages_and_links_valid :: "BlockNumber \<Rightarrow> BlockNumber \<Rightarrow> IndexState \<Rightarrow> bool" where
  "pages_and_links_valid left_block right_block st \<longleftrightarrow>
     (let L = store st left_block; R = store st right_block
      in \<not> PageIsNew L \<and> P_ISLEAF L \<and> \<not> P_ISDELETED L \<and> \<not> P_ISHALFDEAD L
         \<and> \<not> PageIsNew R \<and> P_ISLEAF R \<and> \<not> P_ISDELETED R \<and> \<not> P_ISHALFDEAD R
         \<and> btpo_prev R = left_block
         \<and> (P_RIGHTMOST R \<or> btpo_prev (store st (btpo_next R)) = right_block)
         \<and> (btpo_prev L = P_NONE \<or> btpo_next (store st (btpo_prev L)) = left_block))"

text \<open>Three leaves in a chain, 1 \<open>\<rightarrow>\<close> 2 \<open>\<rightarrow>\<close> 3, each with a high key first.\<close>

definition small_index :: IndexState where
  "small_index = index_of
     [new_page,
      leaf [data_item 16 20, data_item 16 10] 0 2,
      leaf [data_item 16 40, data_item 16 30] 1 3,
      leaf [data_item 16 50] 2 0]"


text \<open>A left page holding its high key only, and one whose only data slot is unused.\<close>

definition hikey_only_index :: IndexState where
  "hikey_only_index = index_of
     [new_page,
      leaf [data_item 16 20] 0 2,
      leaf [data_item 16 40, data_item 16 30] 1 3,
      leaf [data_item 16 50] 2 0]"

definition unused_slot_index :: IndexState where
  "unused_slot_index = index_of
     [new_page,
      leaf [data_item 16 20, \<lparr>lp_flags = LP_UNUSED, lp_len = 0, lp_tuple = trunctuple\<rparr>] 0 2,
      leaf [data_item 16 40, data_item 16 30] 1 3,
      leaf [data_item 16 50] 2 0]"

text \<open>
  A line pointer as \<^verbatim>\<open>PageAddItem\<close> writes it for an entry copied from another page:
  normal, with the source's length and tuple.
\<close>

definition moved_item :: "ItemIdData \<Rightarrow> ItemIdData" where
  "moved_item itemid = \<lparr>lp_flags = LP_NORMAL, lp_len = ItemIdGetLength itemid, lp_tuple = lp_tuple itemid\<rparr>"

text \<open>The offsets of a page's live entries other than its high key.\<close>

definition left_live_offsets :: "Page \<Rightarrow> OffsetNumber list" where
  "left_live_offsets page =
     used_offsets page (P_FIRSTDATAKEY page) (PageGetMaxOffsetNumber page)"

text \<open>
  What the entries at the given offsets take on the page they are added to: the aligned
  tuple and a line pointer each.
\<close>

definition bytes_needed :: "Page \<Rightarrow> OffsetNumber list \<Rightarrow> nat" where
  "bytes_needed page offs =
     sum_list (map (\<lambda>offnum. sizeof_ItemIdData + MAXALIGN (ItemIdGetLength (PageGetItemId page offnum))) offs)"

text \<open>
  Entry conservation is measured by the number of used line pointers from the first data
  key on, over the leaf pages that are neither new, deleted nor half-dead.
\<close>

definition live_entries :: "Page \<Rightarrow> nat" where
  "live_entries page =
     (if PageIsNew page \<or> \<not> P_ISLEAF page \<or> P_ISDELETED page \<or> P_ISHALFDEAD page then 0
      else length (left_live_offsets page))"

definition total_live_entries :: "IndexState \<Rightarrow> nat" where
  "total_live_entries st = sum_list (map (\<lambda>blkno. live_entries (store st blkno)) [1 ..< nblocks st])"

text \<open>
  Three 2000-byte entries on the left; on the right an emptied page that still has its
  2144-byte high key, so 6000 bytes of \<^verbatim>\<open>PageGetFreeSpace\<close>.
\<close>

definition overflow_index :: IndexState where
  "overflow_index = index_of
     [new_page,
      leaf [data_item 16 40, data_item 2000 10, data_item 2000 20, data_item 2000 30] 0 2,
      leaf [data_item 2144 90] 1 3,
      leaf [data_item 16 100] 2 0]"

text \<open>
  A leaf chain whose second page is half-dead and names itself as its right sibling.
\<close>

definition half_dead_leaf :: "ItemIdData list \<Rightarrow> BlockNumber \<Rightarrow> BlockNumber \<Rightarrow> Page" where
  "half_dead_leaf items prev next = (leaf items prev next)\<lparr>btpo_flags := BTP_LEAF OR BTP_HALF_DEAD\<rparr>"

definition cycle_index :: IndexState where
  "cycle_index = index_of
     [new_page,
      leaf [data_item 16 20, data_item 16 10] 0 2,
      half_dead_leaf [\<lparr>lp_flags = LP_NORMAL, lp_len = 8, lp_tuple = trunctuple\<rparr>] 1 2,
      leaf [data_item 16 30] 2 0]"

text \<open>
  The scan stands on a page it skips (deleted, or a half-dead leaf) whose right link
  leads back to the page itself, with room left in the analysis array.
\<close>

definition skip_cycle :: "(BlockNumber \<Rightarrow> Page) \<Rightarrow> nat \<Rightarrow> BlockNumber \<Rightarrow> PageAnalysis list \<Rightarrow> bool" where
  "skip_cycle pgs num_pages blkno pages \<longleftrightarrow>
     blkno \<noteq> P_NONE \<and> length pages < num_pages \<and> \<not> PageIsNew (pgs blkno)
     \<and> PageGetPageSize (pgs blkno) = BLCKSZ
     \<and> (P_ISDELETED (pgs blkno) \<or> (P_ISLEAF (pgs blkno) \<and> P_ISHALFDEAD (pgs blkno)))
     \<and> btpo_next (pgs blkno) = blkno"

text \<open>
  The feasibility rule in the words of the specification: the usable capacity, less the
  right page's average entry size unless the right page is rightmost, times 0.9.
\<close>

definition claimed_available :: "PageAnalysis \<Rightarrow> real" where
  "claimed_available right =
     (if is_rightmost right then real total_space
      else real total_space - real (used_space right) / real_of_int (item_count right))"

definition claimed_feasible :: "PageAnalysis \<Rightarrow> PageAnalysis \<Rightarrow> bool" where
  "claimed_feasible left right \<longleftrightarrow>
     real (used_space left + used_space right) \<le> 0.9 * claimed_available right"

text \<open>
  The footprint the code subtracts (lines 461-467): the integer quotient of used bytes by
  entry count, 0 for a page without entries, rounded up to a multiple of 8.
\<close>

definition high_key_footprint :: "PageAnalysis \<Rightarrow> Size" where
  "high_key_footprint right =
     (if is_rightmost right then 0
      else MAXALIGN (if item_count right > 0 then used_space right div nat (item_count right) else 0))"

text \<open>
  Eight 904-byte entries on the left (7232 bytes); four 16-byte entries and one of 24
  bytes on the right (88 bytes, average 17.6).
\<close>

definition footprint_index :: IndexState where
  "footprint_index = index_of
     [new_page,
      leaf (data_item 16 90 # map (data_item 904) [10, 20, 30, 40, 50, 60, 70, 80]) 0 2,
      leaf [data_item 16 150, data_item 16 100, data_item 16 110, data_item 16 120,
            data_item 16 130, data_item 24 140] 1 3,
      leaf [data_item 16 160] 2 0]"

definition footprint_stats :: "PageAnalysis list" where
  "footprint_stats = map (\<lambda>blkno. analyze_page blkno (store footprint_index blkno)) [1, 2, 3]"

text \<open>Statistics of a non-rightmost leaf with the given used bytes and usage.\<close>

definition stat :: "BlockNumber \<Rightarrow> Size \<Rightarrow> real \<Rightarrow> PageAnalysis" where
  "stat blkno used pct =
     \<lparr>blockno = blkno, is_leaf = True, is_rightmost = False, is_deleted = False,
      is_halfdead = False, used_space = used, free_space = 0, item_count = 1, usage_pct = pct\<rparr>"

section \<open>Evaluation rules\<close>

lemmas page_defs =
  PageIsNew_def P_ISLEAF_def P_ISDELETED_def P_ISHALFDEAD_def P_RIGHTMOST_def
  P_FIRSTDATAKEY_def PageGetMaxOffsetNumber_def PageGetItemId_def ItemIdIsUsed_def
  ItemIdHasStorage_def ItemIdGetLength_def PageGetFreeSpace_def pd_lower_def pd_special_def
  MAXALIGN_def used_offsets_def used_bytes_def PageGetPageSize_def

lemmas example_defs = index_of_def leaf_def data_item_def new_page_def

lemmas analysis_defs = analyze_index_pages_def find_leftmost_leaf_def descend_leftmost.simps
  scan_leaf_pages.simps select_candidates_def select_candidate_def analyze_page_def total_space_def
  Size_sub_def List.map_filter_def index_open_def

lemmas merge_defs = execute_merge_def merge_critical_section_def add_left_items_def update_page_def
  release_all_def LockBuffer_def UnlockReleaseBuffer_def MarkBufferDirty_def log_newpage_buffer_def
  PageAddItem_def PageIndexMultiDelete_def PageIndexTupleDelete_def PageIndexTupleOverwrite_def
  set_dummy_high_key_def trunctuple_def free_slot_def

lemma unlock_lock: "UnlockReleaseBuffer buf (LockBuffer buf mode st) = st"
  by (simp add: UnlockReleaseBuffer_def LockBuffer_def)

lemma store_LockBuffer: "store (LockBuffer buf mode st) = store st"
  by (simp add: LockBuffer_def)

text \<open>Every path that returns \<^verbatim>\<open>false\<close> hands back the state it was given.\<close>

lemma execute_merge_false_unchanged:
  "\<not> fst (execute_merge lb rb st) \<Longrightarrow> snd (execute_merge lb rb st) = st"
  by (simp add: execute_merge_def Let_def release_all_def unlock_lock store_LockBuffer split: if_splits)

lemma execute_merge_violation:
  "precondition_violation lb rb st \<Longrightarrow> \<not> fst (execute_merge lb rb st)"
  by (auto simp add: precondition_violation_def execute_merge_def Let_def store_LockBuffer)

lemma small_merge_succeeds: "fst (execute_merge 1 2 small_index)"
  by (simp add: execute_merge_def Let_def store_LockBuffer small_index_def example_defs page_defs)


section \<open>Soft failures of \<^verbatim>\<open>execute_merge\<close>\<close>

text \<open>
  C4. The claim as it stands does not hold. A right link of the left page that no longer
  names the right page is not among the conditions \<^verbatim>\<open>execute_merge\<close> tests: the link is
  only logged (lines 581-582), the test at line 624 reads the right page's left link. On
  \<open>relinked_index\<close> block 1 names block 3 as its right sibling while block 2 still names
  block 1 as its left sibling; every lock is granted, the merge of block 1 into block 2
  returns \<^verbatim>\<open>true\<close>, block 1 is half-dead afterwards and its entry is on block 2.
\<close>

theorem stale_right_link_of_left_page_is_not_detected:
  "btpo_next (store relinked_index 1) \<noteq> 2 \<and>
   btpo_prev (store relinked_index 2) = 1 \<and>
   blocks_lockable 1 2 relinked_index \<and>
   fst (execute_merge 1 2 relinked_index) \<and>
   P_ISHALFDEAD (store (snd (execute_merge 1 2 relinked_index)) 1) \<and>
   pd_linp (store (snd (execute_merge 1 2 relinked_index)) 2) = [data_item 16 50, data_item 16 10] \<and>
   pd_linp (store relinked_index 2) = [data_item 16 50]"
proof -
  have a: "btpo_next (store relinked_index 1) \<noteq> 2" "btpo_prev (store relinked_index 2) = 1"
      "pd_linp (store relinked_index 2) = [data_item 16 50]"
    by (simp_all add: relinked_index_def example_defs)
  have l: "blocks_lockable 1 2 relinked_index"
    by (simp add: blocks_lockable_def lock_targets_def relinked_index_def example_defs page_defs)
  have m: "fst (execute_merge 1 2 relinked_index)"
    by (simp add: execute_merge_def Let_def store_LockBuffer relinked_index_def example_defs page_defs)
  have s: "store (snd (execute_merge 1 2 relinked_index)) =
     (store relinked_index)
       (2 := leaf [data_item 16 50, data_item 16 10] 0 0,
        1 := half_dead_leaf [\<lparr>lp_flags = LP_NORMAL, lp_len = 8, lp_tuple = trunctuple\<rparr>] 0 3)"
    by (simp add: merge_defs Let_def relinked_index_def example_defs page_defs half_dead_leaf_def)
  have h: "P_ISHALFDEAD (store (snd (execute_merge 1 2 relinked_index)) 1)"
    unfolding s by (simp add: half_dead_leaf_def leaf_def P_ISHALFDEAD_def)
  have r: "pd_linp (store (snd (execute_merge 1 2 relinked_index)) 2) = [data_item 16 50, data_item 16 10]"
    unfolding s by (simp add: leaf_def)
  from a l m h r show ?thesis by simp
qed

text \<open>
  C4, amended. In a call whose blocks can all be locked (the left and right block and the
  neighbours the call would lock exist, are pairwise distinct and are not locked already),
  every violation of a condition checked before the critical section makes
  \<^verbatim>\<open>execute_merge\<close> return \<^verbatim>\<open>false\<close> with the state it started from: the same pages, the
  same buffer locks (every lock it took is released), nothing marked dirty, nothing
  logged. The conditions are those of \<open>precondition_violation\<close>. In particular a candidate
  has gone stale for the executor when the right page's left link no longer names the
  left page, and then the merge is abandoned with both pages unchanged. What the call does
  when a link leads back to a block it has already locked is not part of the statement.
\<close>

theorem precondition_failure_aborts_unchanged:
  assumes "blocks_lockable lb rb st"
  shows "(precondition_violation lb rb st \<longrightarrow> execute_merge lb rb st = (False, st)) \<and>
         (btpo_prev (store st rb) \<noteq> lb \<longrightarrow> execute_merge lb rb st = (False, st))"
proof (intro conjI impI)
  assume v: "precondition_violation lb rb st"
  from execute_merge_violation [OF v] execute_merge_false_unchanged [of lb rb st]
  show "execute_merge lb rb st = (False, st)"
    by (cases "execute_merge lb rb st") simp
next
  assume "btpo_prev (store st rb) \<noteq> lb"
  then have v: "precondition_violation lb rb st"
    by (simp add: precondition_violation_def Let_def)
  from execute_merge_violation [OF v] execute_merge_false_unchanged [of lb rb st]
  show "execute_merge lb rb st = (False, st)"
    by (cases "execute_merge lb rb st") simp
qed

theorem precondition_failure_aborts_unchanged_witness:
  "blocks_lockable 1 2 stale_index \<and>
   precondition_violation 1 2 stale_index \<and>
   btpo_prev (store stale_index 2) \<noteq> 1 \<and>
   execute_merge 1 2 stale_index = (False, stale_index) \<and>
   buf_locks (snd (execute_merge 1 2 stale_index)) = []"
proof -
  have l: "blocks_lockable 1 2 stale_index"
    by (simp add: blocks_lockable_def lock_targets_def stale_index_def example_defs page_defs)
  have a: "btpo_prev (store stale_index 2) \<noteq> 1"
    by (simp add: stale_index_def index_of_def leaf_def)
  then have v: "precondition_violation 1 2 stale_index"
    by (simp add: precondition_violation_def Let_def)
  have "buf_locks stale_index = []" by (simp add: stale_index_def index_of_def)
  with l a v precondition_failure_aborts_unchanged [OF l] show ?thesis by simp
qed




text \<open>
  C10. Take a call whose blocks can all be locked and in which every check on the pages
  and their links succeeds. When the left page has no used line pointer from its first
  data key to its last offset, whether because there is no such slot or because every
  such slot is unused, \<^verbatim>\<open>execute_merge\<close> returns \<^verbatim>\<open>false\<close> and leaves the state as it
  found it: pages, locks, dirty marks and log. The first case is the test of
  \<^verbatim>\<open>nleft_items\<close> at line 749, the second the test at line 791; a capacity re-check
  that fails before them has the same outcome.
\<close>

theorem empty_left_page_never_merged:
  assumes "blocks_lockable lb rb st"
    and "pages_and_links_valid lb rb st"
    and "used_offsets (store st lb) (P_FIRSTDATAKEY (store st lb)) (PageGetMaxOffsetNumber (store st lb)) = []"
  shows "execute_merge lb rb st = (False, st)"
proof -
  from assms(3) have "\<not> fst (execute_merge lb rb st)"
    by (simp add: execute_merge_def Let_def store_LockBuffer)
  with execute_merge_false_unchanged [of lb rb st]
  show "execute_merge lb rb st = (False, st)"
    by (cases "execute_merge lb rb st") simp
qed

theorem empty_left_page_never_merged_witness:
  "blocks_lockable 1 2 hikey_only_index \<and>
   pages_and_links_valid 1 2 hikey_only_index \<and>
   PageGetMaxOffsetNumber (store hikey_only_index 1) < P_FIRSTDATAKEY (store hikey_only_index 1) \<and>
   execute_merge 1 2 hikey_only_index = (False, hikey_only_index) \<and>
   blocks_lockable 1 2 unused_slot_index \<and>
   pages_and_links_valid 1 2 unused_slot_index \<and>
   PageGetMaxOffsetNumber (store unused_slot_index 1) = P_FIRSTDATAKEY (store unused_slot_index 1) \<and>
   execute_merge 1 2 unused_slot_index = (False, unused_slot_index)"
proof -
  have l: "blocks_lockable 1 2 hikey_only_index" "blocks_lockable 1 2 unused_slot_index"
    by (simp_all add: blocks_lockable_def lock_targets_def hikey_only_index_def unused_slot_index_def
          example_defs page_defs)
  have a: "pages_and_links_valid 1 2 hikey_only_index" "pages_and_links_valid 1 2 unused_slot_index"
    by (simp_all add: pages_and_links_valid_def Let_def hikey_only_index_def unused_slot_index_def
          example_defs page_defs)
  have b: "PageGetMaxOffsetNumber (store hikey_only_index 1) < P_FIRSTDATAKEY (store hikey_only_index 1)"
      "PageGetMaxOffsetNumber (store unused_slot_index 1) = P_FIRSTDATAKEY (store unused_slot_index 1)"
    by (simp_all add: hikey_only_index_def unused_slot_index_def example_defs page_defs)
  have c: "used_offsets (store hikey_only_index 1) (P_FIRSTDATAKEY (store hikey_only_index 1))
             (PageGetMaxOffsetNumber (store hikey_only_index 1)) = []"
      "used_offsets (store unused_slot_index 1) (P_FIRSTDATAKEY (store unused_slot_index 1))
             (PageGetMaxOffsetNumber (store unused_slot_index 1)) = []"
    by (simp_all add: hikey_only_index_def unused_slot_index_def example_defs page_defs)
  from l a b empty_left_page_never_merged [OF l(1) a(1) c(1)]
    empty_left_page_never_merged [OF l(2) a(2) c(2)]
  show ?thesis by simp
qed

section \<open>The entry points\<close>

text \<open>
  C7. With \<^verbatim>\<open>max_pct_to_merge\<close> below 1 or above 100 both entry points raise
  \<^verbatim>\<open>ERRCODE_INVALID_PARAMETER_VALUE\<close> and the state is the one they were called with:
  no relation lock, no buffer lock, no page read into a result, whatever the index is and
  whatever the caller's context.
\<close>

theorem bad_threshold_rejected_before_any_work:
  "max_pct_to_merge < 1 \<or> max_pct_to_merge > 100 \<Longrightarrow>
     pg_index_reclaim_execute max_pct_to_merge rsinfo_ok st = Some (Inl ERRCODE_INVALID_PARAMETER_VALUE, st) \<and>
     pg_index_reclaim_analyze max_pct_to_merge rsinfo_ok st = Some (Inl ERRCODE_INVALID_PARAMETER_VALUE, st)"
  by (simp add: pg_index_reclaim_execute_def pg_index_reclaim_analyze_def)

theorem bad_threshold_rejected_before_any_work_witness:
  "pg_index_reclaim_execute 0 True small_index = Some (Inl ERRCODE_INVALID_PARAMETER_VALUE, small_index) \<and>
   pg_index_reclaim_analyze 0 True small_index = Some (Inl ERRCODE_INVALID_PARAMETER_VALUE, small_index) \<and>
   pg_index_reclaim_execute 101 True small_index = Some (Inl ERRCODE_INVALID_PARAMETER_VALUE, small_index) \<and>
   pg_index_reclaim_analyze 101 True small_index = Some (Inl ERRCODE_INVALID_PARAMETER_VALUE, small_index) \<and>
   rel_locks small_index = [] \<and> buf_locks small_index = []"
proof -
  have "rel_locks small_index = []" "buf_locks small_index = []"
    by (simp_all add: small_index_def index_of_def)
  with bad_threshold_rejected_before_any_work [of 0 True small_index] bad_threshold_rejected_before_any_work [of 101 True small_index] show ?thesis by simp
qed


lemma merge_loop_after_attempt:
  "merge_loop cs 1 merged reclaimed st = ((merged, reclaimed), st)"
  by (cases cs) simp_all

lemma merge_loop_first_feasible:
  "merge_loop cs 0 0 0 st =
     (case find can_merge cs of
        None \<Rightarrow> ((0, 0), st)
      | Some c \<Rightarrow>
          (case execute_merge (left_page c) (right_page c) st of
             (ok, st') \<Rightarrow> ((if ok then 1 else 0,
                            if ok then int BLCKSZ - int (estimated_space c) else 0), st')))"
  by (induction cs) (auto simp add: merge_loop_after_attempt split: prod.splits bool.splits)

text \<open>
  C9. The candidate loop of \<^verbatim>\<open>pg_index_reclaim_execute\<close>, started with its counters at
  zero, is one call of \<^verbatim>\<open>execute_merge\<close> on the first candidate of the list whose
  \<^verbatim>\<open>can_merge\<close> is set, and no call when there is none; \<^verbatim>\<open>pages_merged\<close> is 1 when
  that call returns \<^verbatim>\<open>true\<close> and 0 otherwise. So a call of the entry point that
  returns a row returns 0 or 1 pages merged.
\<close>

theorem at_most_one_merge_per_execute:
  "merge_loop cs 0 0 0 st =
     (case find can_merge cs of
        None \<Rightarrow> ((0, 0), st)
      | Some c \<Rightarrow>
          (case execute_merge (left_page c) (right_page c) st of
             (ok, st') \<Rightarrow> ((if ok then 1 else 0,
                            if ok then int BLCKSZ - int (estimated_space c) else 0), st'))) \<and>
   (pg_index_reclaim_execute max_pct_to_merge rsinfo_ok st0 = Some (Inr (pages_merged, space_reclaimed), st')
     \<longrightarrow> pages_merged = 0 \<or> pages_merged = 1)"
proof (intro conjI impI)
  show "merge_loop cs 0 0 0 st =
     (case find can_merge cs of
        None \<Rightarrow> ((0, 0), st)
      | Some c \<Rightarrow>
          (case execute_merge (left_page c) (right_page c) st of
             (ok, st') \<Rightarrow> ((if ok then 1 else 0,
                            if ok then int BLCKSZ - int (estimated_space c) else 0), st')))"
    by (rule merge_loop_first_feasible)
next
  assume "pg_index_reclaim_execute max_pct_to_merge rsinfo_ok st0 = Some (Inr (pages_merged, space_reclaimed), st')"
  then show "pages_merged = 0 \<or> pages_merged = 1"
    by (auto simp add: pg_index_reclaim_execute_def Let_def merge_loop_first_feasible
          split: if_splits option.splits prod.splits)
qed


lemma small_execute:
  "map_option fst (pg_index_reclaim_execute 50 True small_index) = Some (Inr (1, 8160))"
  by (simp add: pg_index_reclaim_execute_def analysis_defs Let_def small_index_def example_defs page_defs
       execute_merge_def store_LockBuffer split: prod.splits)

lemma small_candidates:
  "map (\<lambda>c. (left_page c, right_page c, estimated_space c, can_merge c))
     (the (analyze_index_pages (index_open ShareUpdateExclusiveLock small_index) 50))
   = [(1, 2, 32, True), (2, 3, 32, True)]"
  by (simp add: analysis_defs Let_def small_index_def example_defs page_defs)

theorem at_most_one_merge_per_execute_witness:
  "map_option fst (pg_index_reclaim_execute 50 True small_index) = Some (Inr (1, 8160)) \<and>
   map (\<lambda>c. (left_page c, right_page c, can_merge c))
     (the (analyze_index_pages (index_open ShareUpdateExclusiveLock small_index) 50))
     = [(1, 2, True), (2, 3, True)] \<and>
   fst (merge_loop (the (analyze_index_pages (index_open ShareUpdateExclusiveLock small_index) 50))
          0 0 0 (index_open ShareUpdateExclusiveLock small_index))
     = (if fst (execute_merge 1 2 (index_open ShareUpdateExclusiveLock small_index)) then 1 else 0,
        if fst (execute_merge 1 2 (index_open ShareUpdateExclusiveLock small_index)) then 8160 else 0)"
proof -
  obtain row st' where r: "pg_index_reclaim_execute 50 True small_index = Some (row, st')"
    using small_execute by (cases "pg_index_reclaim_execute 50 True small_index") auto
  with small_execute have row: "row = Inr (1, 8160)" by simp
  let ?cs = "the (analyze_index_pages (index_open ShareUpdateExclusiveLock small_index) 50)"
  have c: "map (\<lambda>c. (left_page c, right_page c, estimated_space c, can_merge c)) ?cs
             = [(1, 2, 32, True), (2, 3, 32, True)]"
    by (rule small_candidates)
  then obtain c1 c2 where cs: "?cs = [c1, c2]" by auto
  with c have c1: "left_page c1 = 1" "right_page c1 = 2" "estimated_space c1 = 32" "can_merge c1"
    and c2: "left_page c2 = 2" "right_page c2 = 3" "can_merge c2"
    by simp_all
  from at_most_one_merge_per_execute
         [where cs = "?cs" and st = "index_open ShareUpdateExclusiveLock small_index"
            and max_pct_to_merge = 50 and rsinfo_ok = True and pages_merged = 1
            and space_reclaimed = 8160 and st' = st' and st0 = small_index]
       r row cs c1 c2 small_execute
  show ?thesis by (simp split: prod.splits)
qed

section \<open>The candidate selector\<close>

text \<open>
  C5. Take a round of the candidate loop that gets as far as the usage test: the left
  page is not rightmost, its page is initialised and has a right link, the right page is
  in the analysis array, and no flag of either entry is set. Then the pair is dropped
  exactly when both usages are strictly above \<^verbatim>\<open>max_pct_to_merge\<close>. With both usages
  equal to the threshold a candidate for the pair is emitted (and is in the returned list
  when the left entry is in the array); with both one unit above, none is. The statement
  is about the statistics the selector is given, whatever produced them.
\<close>

theorem usage_exclusion_is_strict:
  assumes "\<not> is_rightmost left"
    and "\<not> PageIsNew (pgs (blockno left))"
    and "btpo_next (pgs (blockno left)) \<noteq> P_NONE"
    and "find (\<lambda>p. blockno p = btpo_next (pgs (blockno left))) pages = Some right"
    and "\<not> is_deleted left" "\<not> is_halfdead left" "\<not> is_deleted right" "\<not> is_halfdead right"
  shows "(select_candidate pgs pages m left = None
            \<longleftrightarrow> usage_pct left > real_of_int m \<and> usage_pct right > real_of_int m) \<and>
         (usage_pct left = real_of_int m \<and> usage_pct right = real_of_int m \<longrightarrow>
            (\<exists>c. select_candidate pgs pages m left = Some c
                  \<and> left_page c = blockno left \<and> right_page c = blockno right
                  \<and> (left \<in> set pages \<longrightarrow> c \<in> set (select_candidates pgs pages m)))) \<and>
         (usage_pct left = real_of_int m + 1 \<and> usage_pct right = real_of_int m + 1 \<longrightarrow>
            select_candidate pgs pages m left = None)"
  using assms
  by (auto simp add: select_candidate_def select_candidates_def Let_def List.map_filter_def
        image_iff intro!: bexI [of _ left])


theorem usage_exclusion_is_strict_witness:
  "find (\<lambda>p. blockno p = btpo_next (store small_index (blockno (stat 1 4076 50))))
        [stat 1 4076 50, stat 2 4076 50] = Some (stat 2 4076 50) \<and>
   usage_pct (stat 1 4076 50) = real_of_int 50 \<and>
   usage_pct (stat 2 4076 50) = real_of_int 50 \<and>
   map_option (\<lambda>c. (left_page c, right_page c))
     (select_candidate (store small_index) [stat 1 4076 50, stat 2 4076 50] 50 (stat 1 4076 50))
     = Some (1, 2) \<and>
   find (\<lambda>p. blockno p = btpo_next (store small_index (blockno (stat 1 8152 100))))
        [stat 1 8152 100, stat 2 8152 100] = Some (stat 2 8152 100) \<and>
   usage_pct (stat 1 8152 100) = real_of_int 99 + 1 \<and>
   usage_pct (stat 2 8152 100) = real_of_int 99 + 1 \<and>
   select_candidate (store small_index) [stat 1 8152 100, stat 2 8152 100] 99 (stat 1 8152 100) = None"
proof -
  have s: "\<not> PageIsNew (store small_index 1)" "btpo_next (store small_index 1) = 2"
    by (simp_all add: small_index_def example_defs page_defs)
  have a: "\<not> is_rightmost (stat b u p)" "blockno (stat b u p) = b" "usage_pct (stat b u p) = p"
      "\<not> is_deleted (stat b u p)" "\<not> is_halfdead (stat b u p)" for b u p
    by (simp_all add: stat_def)
  have f: "find (\<lambda>p. blockno p = btpo_next (store small_index (blockno (stat 1 u q))))
        [stat 1 u q, stat 2 u q] = Some (stat 2 u q)" for u q
    using s by (simp add: a)
  have n: "\<not> PageIsNew (store small_index (blockno (stat 1 u q)))"
      "btpo_next (store small_index (blockno (stat 1 u q))) \<noteq> P_NONE" for u q
    using s by (simp_all add: a)
  have t50: "map_option (\<lambda>c. (left_page c, right_page c))
     (select_candidate (store small_index) [stat 1 4076 50, stat 2 4076 50] 50 (stat 1 4076 50))
     = Some (1, 2)"
    using usage_exclusion_is_strict
            [where left = "stat 1 4076 50" and right = "stat 2 4076 50" and m = 50
               and pgs = "store small_index" and pages = "[stat 1 4076 50, stat 2 4076 50]"]
          a n f
    by auto
  have t99: "select_candidate (store small_index) [stat 1 8152 100, stat 2 8152 100] 99 (stat 1 8152 100) = None"
    using usage_exclusion_is_strict
            [where left = "stat 1 8152 100" and right = "stat 2 8152 100" and m = 99
               and pgs = "store small_index" and pages = "[stat 1 8152 100, stat 2 8152 100]"]
          a n f
    by auto
  from t50 t99 f show ?thesis by (simp add: a)
qed

lemma Size_sub_plain: "b \<le> a \<Longrightarrow> a < 2 ^ 64 \<Longrightarrow> Size_sub a b = a - b"
proof -
  assume a: "b \<le> a" "a < 2 ^ 64"
  then have "b < 2 ^ 64" by (rule le_less_trans)
  then have b: "b mod 2 ^ 64 = b" by (rule mod_less)
  from a(1) have c: "a + 2 ^ 64 - b = (a - b) + 2 ^ 64" by linarith
  from a have "a - b < 2 ^ 64" by (rule_tac less_imp_diff_less)
  then have d: "(a - b) mod 2 ^ 64 = a - b" by (rule mod_less)
  show ?thesis unfolding Size_sub_def b c using d by (simp only: mod_add_self2)
qed

lemma MAXALIGN_le_total_space: "n \<le> total_space \<Longrightarrow> MAXALIGN n \<le> total_space"
  unfolding MAXALIGN_def total_space_def by simp

lemma avg_le: "(if (0::int) < k then (u::nat) div nat k else 0) \<le> u"
  by simp

lemma total_space_bound: "total_space < 2 ^ 64"
  unfolding total_space_def MAXALIGN_def by simp

text \<open>
  C6. The claim takes the high-key footprint to be the right page's average entry size.
  The code subtracts \<^verbatim>\<open>MAXALIGN\<close> of the integer quotient of used bytes by entry count.
  On \<open>footprint_index\<close> the pair (1, 2) has 7320 combined bytes; the right page's 88
  bytes in 5 entries give the quotient 17 and the footprint 24, so the code compares 7320
  with 0.9 * 8128 = 7315.2 and clears \<^verbatim>\<open>can_merge\<close>, where the claimed rule compares
  with 0.9 * (8152 - 17.6) = 7320.96 and would set it.
\<close>

theorem can_merge_differs_from_plain_average:
  "map_option (map (\<lambda>c. (left_page c, right_page c, estimated_space c, can_merge c)))
     (analyze_index_pages footprint_index 50) = Some [(1, 2, 7320, False), (2, 3, 104, True)] \<and>
   claimed_feasible (analyze_page 1 (store footprint_index 1)) (analyze_page 2 (store footprint_index 2))"
  by (simp add: analysis_defs Let_def footprint_index_def example_defs page_defs
        claimed_feasible_def claimed_available_def)

text \<open>
  C6, amended. For every emitted candidate whose right page has no more used bytes than
  the usable capacity, \<^verbatim>\<open>can_merge\<close> holds exactly when the combined used bytes are at
  most 0.9 times the usable capacity less the footprint as the code computes it: nothing
  for a rightmost right page, and otherwise the integer average entry size (0 without
  entries) rounded up to a multiple of 8. The product with 0.9 is exact here; in the
  C \<^verbatim>\<open>double\<close>s it is rounded, which does not change the comparison with an integer
  for capacities up to 8152.
\<close>

theorem can_merge_uses_aligned_average_footprint:
  assumes "select_candidate pgs pages m left = Some c"
    and "find (\<lambda>p. blockno p = btpo_next (pgs (blockno left))) pages = Some right"
    and "used_space right \<le> total_space"
  shows "can_merge c \<longleftrightarrow>
           real (used_space left + used_space right)
             \<le> real (total_space - high_key_footprint right) * 0.9"
proof -
  let ?avg = "if item_count right > 0 then used_space right div nat (item_count right) else 0"
  have "?avg \<le> used_space right" by (rule avg_le)
  with assms(3) have "?avg \<le> total_space" by (rule_tac le_trans)
  then have "MAXALIGN ?avg \<le> total_space" by (rule MAXALIGN_le_total_space)
  then have s: "Size_sub total_space (MAXALIGN ?avg) = total_space - MAXALIGN ?avg"
    using total_space_bound by (rule Size_sub_plain)
  have r: "\<not> is_rightmost right \<Longrightarrow> high_key_footprint right = MAXALIGN ?avg"
    by (simp add: high_key_footprint_def)
  have r': "is_rightmost right \<Longrightarrow> high_key_footprint right = 0"
    by (simp add: high_key_footprint_def)
  from assms(1,2) show ?thesis
    by (cases "is_rightmost right")
       (auto simp add: select_candidate_def Let_def r r' s simp del: of_nat_add split: if_splits)
qed

theorem can_merge_uses_aligned_average_footprint_witness:
  "map_option (\<lambda>c. (left_page c, right_page c, estimated_space c, can_merge c))
     (select_candidate (store footprint_index) footprint_stats 50 (footprint_stats ! 0))
     = Some (1, 2, 7320, False) \<and>
   find (\<lambda>p. blockno p = btpo_next (store footprint_index (blockno (footprint_stats ! 0)))) footprint_stats
     = Some (footprint_stats ! 1) \<and>
   used_space (footprint_stats ! 1) = 88 \<and>
   high_key_footprint (footprint_stats ! 1) = 24 \<and>
   \<not> real (used_space (footprint_stats ! 0) + used_space (footprint_stats ! 1))
       \<le> real (total_space - high_key_footprint (footprint_stats ! 1)) * 0.9"
proof -
  have c: "map_option (\<lambda>c. (left_page c, right_page c, estimated_space c, can_merge c))
     (select_candidate (store footprint_index) footprint_stats 50 (footprint_stats ! 0))
     = Some (1, 2, 7320, False)"
    by (simp add: footprint_stats_def analysis_defs Let_def footprint_index_def example_defs page_defs)
  then obtain c0 where c0: "select_candidate (store footprint_index) footprint_stats 50 (footprint_stats ! 0) = Some c0"
    by auto
  have f: "find (\<lambda>p. blockno p = btpo_next (store footprint_index (blockno (footprint_stats ! 0)))) footprint_stats
     = Some (footprint_stats ! 1)"
    by (simp add: footprint_stats_def analysis_defs Let_def footprint_index_def example_defs page_defs)
  have u: "used_space (footprint_stats ! 1) = 88" "high_key_footprint (footprint_stats ! 1) = 24"
    by (simp_all add: footprint_stats_def high_key_footprint_def analysis_defs Let_def
          footprint_index_def example_defs page_defs)
  then have le: "used_space (footprint_stats ! 1) \<le> total_space"
    by (simp add: total_space_def MAXALIGN_def)
  from can_merge_uses_aligned_average_footprint [OF c0 f le] c c0 f u show ?thesis by simp
qed

section \<open>The leaf scan\<close>

text \<open>
  A scan that stands in a cycle of skipped pages does not return: the counter compared
  with the page count is only advanced when a page is recorded.
\<close>

lemma scan_returns_no_skip_cycle:
  "scan_leaf_pages pgs num_pages blkno pages = Some r \<Longrightarrow> \<not> skip_cycle pgs num_pages blkno pages"
proof (induction rule: scan_leaf_pages.raw_induct [rotated 1, consumes 1])
  case (1 scan pgs num_pages blkno pages r)
  show ?case
  proof
    assume c: "skip_cycle pgs num_pages blkno pages"
    with 1(2) have "scan pgs num_pages blkno pages = Some r"
      by (auto simp add: skip_cycle_def Let_def split: if_splits)
    from 1(1) [OF this] c show False by simp
  qed
qed

lemma scan_diverges_in_skip_cycle:
  "skip_cycle pgs num_pages blkno pages \<Longrightarrow> scan_leaf_pages pgs num_pages blkno pages = None"
  using scan_returns_no_skip_cycle [of pgs num_pages blkno pages] by (cases "scan_leaf_pages pgs num_pages blkno pages") auto

text \<open>
  C3. On \<open>cycle_index\<close> the scan records block 1 and moves on to block 2, a half-dead
  leaf whose right link is block 2 itself. The two skip branches (lines 309-316 and
  328-335) take the right link and \<^verbatim>\<open>continue\<close> without counting the page, so the test
  \<^verbatim>\<open>total_pages < num_pages\<close> stays true at 1 < 4 and the loop never ends: the scan,
  the analysis and the Analyze entry point have no result.
\<close>

theorem leaf_scan_diverges_on_half_dead_cycle:
  "scan_leaf_pages (store cycle_index) (nblocks cycle_index) 1 [] = None \<and>
   analyze_index_pages cycle_index 50 = None \<and>
   pg_index_reclaim_analyze 50 True cycle_index = None"
proof -
  have cyc: "skip_cycle (store cycle_index) 4 2 [analyze_page 1 (store cycle_index 1)]"
    by (simp add: skip_cycle_def cycle_index_def half_dead_leaf_def example_defs page_defs)
  have step: "scan_leaf_pages (store cycle_index) 4 1 [] =
        scan_leaf_pages (store cycle_index) 4 2 [analyze_page 1 (store cycle_index 1)]"
    by (subst scan_leaf_pages.simps)
       (simp add: Let_def cycle_index_def half_dead_leaf_def example_defs page_defs)
  have n: "nblocks cycle_index = 4" by (simp add: cycle_index_def index_of_def)
  have s: "scan_leaf_pages (store cycle_index) 4 1 [] = None"
    using scan_diverges_in_skip_cycle [OF cyc] step by simp
  have l: "find_leftmost_leaf cycle_index = Some 1"
    by (simp add: find_leftmost_leaf_def descend_leftmost.simps Let_def cycle_index_def example_defs page_defs)
  have l': "find_leftmost_leaf (index_open AccessShareLock cycle_index) = Some 1"
    by (simp add: find_leftmost_leaf_def descend_leftmost.simps Let_def cycle_index_def example_defs page_defs index_open_def)
  have a: "analyze_index_pages cycle_index 50 = None"
    using s l n by (simp add: analyze_index_pages_def)
  have a': "analyze_index_pages (index_open AccessShareLock cycle_index) 50 = None"
    using s n l' by (simp add: analyze_index_pages_def index_open_def)
  have "rd_relam cycle_index = 403" by (simp add: cycle_index_def index_of_def)
  then have "pg_index_reclaim_analyze 50 True cycle_index = None"
    using a' by (simp add: pg_index_reclaim_analyze_def Let_def index_open_def)
  with s a n show ?thesis by simp
qed

section \<open>What a successful merge leaves on the right page\<close>

lemma PageAddItem_at_end:
  assumes "\<not> pd_has_free_lines p" and "pd_lower p + 4 + MAXALIGN sz \<le> pd_upper p"
  shows "PageAddItem p t sz InvalidOffsetNumber =
           (Suc (length (pd_linp p)),
            p\<lparr>pd_linp := pd_linp p @ [\<lparr>lp_flags = LP_NORMAL, lp_len = sz, lp_tuple = t\<rparr>],
              pd_upper := pd_upper p - MAXALIGN sz\<rparr>)"
  using assms by (simp add: PageAddItem_def Let_def PageGetMaxOffsetNumber_def)

lemma add_left_items_Cons:
  "add_left_items lb rb (offnum # offs) s =
     add_left_items lb rb offs
       (update_page rb (\<lambda>right_page. snd (PageAddItem right_page
            (lp_tuple (PageGetItemId (store s lb) offnum))
            (ItemIdGetLength (PageGetItemId (store s lb) offnum)) InvalidOffsetNumber)) s)"
  by (simp add: add_left_items_def Let_def)

lemma add_left_items_append:
  assumes "lb \<noteq> rb" and "\<not> pd_has_free_lines (store s rb)"
    and "pd_lower (store s rb) + bytes_needed (store s lb) offs \<le> pd_upper (store s rb)"
  shows "store (add_left_items lb rb offs s) lb = store s lb \<and>
         pd_linp (store (add_left_items lb rb offs s) rb) =
           pd_linp (store s rb) @ map (\<lambda>offnum. moved_item (PageGetItemId (store s lb) offnum)) offs"
  using assms
proof (induction offs arbitrary: s)
  case Nil
  then show ?case by (simp add: add_left_items_def)
next
  case (Cons offnum offs)
  let ?it = "PageGetItemId (store s lb) offnum"
  let ?s1 = "update_page rb (\<lambda>right_page. snd (PageAddItem right_page
            (lp_tuple ?it) (ItemIdGetLength ?it) InvalidOffsetNumber)) s"
  from Cons.prems(3) have fit: "pd_lower (store s rb) + 4 + MAXALIGN (ItemIdGetLength ?it) \<le> pd_upper (store s rb)"
    by (simp add: bytes_needed_def)
  have add: "PageAddItem (store s rb) (lp_tuple ?it) (ItemIdGetLength ?it) InvalidOffsetNumber =
      (Suc (length (pd_linp (store s rb))),
       (store s rb)\<lparr>pd_linp := pd_linp (store s rb) @ [moved_item ?it],
                     pd_upper := pd_upper (store s rb) - MAXALIGN (ItemIdGetLength ?it)\<rparr>)"
    using PageAddItem_at_end [OF Cons.prems(2) fit] by (simp add: moved_item_def)
  have l: "store ?s1 lb = store s lb"
    using Cons.prems(1) by (simp add: update_page_def)
  have r: "store ?s1 rb = (store s rb)\<lparr>pd_linp := pd_linp (store s rb) @ [moved_item ?it],
                     pd_upper := pd_upper (store s rb) - MAXALIGN (ItemIdGetLength ?it)\<rparr>"
    by (simp add: update_page_def add)
  have h: "\<not> pd_has_free_lines (store ?s1 rb)"
    using Cons.prems(2) by (simp add: r)
  have room: "pd_lower (store ?s1 rb) + bytes_needed (store ?s1 lb) offs \<le> pd_upper (store ?s1 rb)"
    using Cons.prems(3) by (simp add: l r pd_lower_def bytes_needed_def)
  from Cons.IH [OF Cons.prems(1) h room]
  show ?case by (simp add: add_left_items_Cons l r)
qed

lemma critical_section_right_items:
  "lb \<noteq> rb \<Longrightarrow>
   pd_linp (store (merge_critical_section lb rb ls fd mo offs s) rb) =
   pd_linp (store (add_left_items lb rb offs s) rb)"
  by (simp add: merge_critical_section_def Let_def update_page_def MarkBufferDirty_def
        log_newpage_buffer_def)

lemma store_release_all: "store (release_all lb rb ls rs rm s) = store s"
  by (simp add: release_all_def Let_def UnlockReleaseBuffer_def)

lemma execute_merge_true:
  "fst (execute_merge lb rb st) \<Longrightarrow>
   store (snd (execute_merge lb rb st)) =
   store (merge_critical_section lb rb (btpo_prev (store st lb))
            (P_FIRSTDATAKEY (store st lb)) (PageGetMaxOffsetNumber (store st lb))
            (left_live_offsets (store st lb))
            ((if btpo_prev (store st lb) \<noteq> P_NONE then LockBuffer (btpo_prev (store st lb)) BT_WRITE else id)
               ((if \<not> P_RIGHTMOST (store st rb) then LockBuffer (btpo_next (store st rb)) BT_WRITE else id)
                  (LockBuffer rb BT_WRITE (LockBuffer lb BT_WRITE st)))))"
  by (simp add: execute_merge_def Let_def store_LockBuffer store_release_all left_live_offsets_def
        split: if_splits)

lemma small_merge_right_items:
  "pd_linp (store (snd (execute_merge 1 2 small_index)) 2) =
     [data_item 16 40, data_item 16 30, data_item 16 10]"
  by (simp add: merge_defs Let_def small_index_def example_defs page_defs)

text \<open>
  C1. The claim puts the left page's entries in front of the right page's. The code adds
  them with \<^verbatim>\<open>PageAddItem\<close> at \<^verbatim>\<open>InvalidOffsetNumber\<close>, that is behind the last line
  pointer of the right page: merging block 1 into block 2 of \<open>small_index\<close> leaves the
  right page with its high key (40), its own entry (30) and then the left page's entry
  (10).
\<close>

theorem left_entries_do_not_precede_right_entries:
  "fst (execute_merge 1 2 small_index) \<and>
   pd_linp (store (snd (execute_merge 1 2 small_index)) 2)
     \<noteq> drop 1 (pd_linp (store small_index 1)) @ pd_linp (store small_index 2) \<and>
   drop 1 (pd_linp (store (snd (execute_merge 1 2 small_index)) 2))
     \<noteq> drop 1 (pd_linp (store small_index 1)) @ drop 1 (pd_linp (store small_index 2))"
  using small_merge_succeeds small_merge_right_items
  by (simp add: small_index_def example_defs)

text \<open>
  C1, amended. After a successful merge of a left page into a different right page that
  carries no free-line-pointer hint and has room for every moved entry together with its
  line pointer, the right page's line pointers are its original ones, in their order,
  followed by the left page's used entries from its first data key on, in their order,
  each as a normal line pointer with the length and tuple of the original.
\<close>

theorem merged_right_page_appends_left_entries:
  assumes "fst (execute_merge lb rb st)"
    and "lb \<noteq> rb"
    and "\<not> pd_has_free_lines (store st rb)"
    and "pd_lower (store st rb) + bytes_needed (store st lb) (left_live_offsets (store st lb))
           \<le> pd_upper (store st rb)"
  shows "pd_linp (store (snd (execute_merge lb rb st)) rb) =
           pd_linp (store st rb) @
           map (\<lambda>offnum. moved_item (PageGetItemId (store st lb) offnum))
               (left_live_offsets (store st lb))"
proof -
  let ?s4 = "(if btpo_prev (store st lb) \<noteq> P_NONE then LockBuffer (btpo_prev (store st lb)) BT_WRITE else id)
               ((if \<not> P_RIGHTMOST (store st rb) then LockBuffer (btpo_next (store st rb)) BT_WRITE else id)
                  (LockBuffer rb BT_WRITE (LockBuffer lb BT_WRITE st)))"
  have s4: "store ?s4 = store st" by (simp add: store_LockBuffer)
  have "pd_linp (store (snd (execute_merge lb rb st)) rb) =
        pd_linp (store (add_left_items lb rb (left_live_offsets (store st lb)) ?s4) rb)"
    by (simp only: execute_merge_true [OF assms(1)] critical_section_right_items [OF assms(2)])
  also have "\<dots> = pd_linp (store ?s4 rb) @
           map (\<lambda>offnum. moved_item (PageGetItemId (store ?s4 lb) offnum))
               (left_live_offsets (store st lb))"
  proof -
    have h3: "\<not> pd_has_free_lines (store ?s4 rb)" using assms(3) by (simp add: store_LockBuffer)
    have h4: "pd_lower (store ?s4 rb) + bytes_needed (store ?s4 lb) (left_live_offsets (store st lb))
           \<le> pd_upper (store ?s4 rb)" using assms(4) by (simp add: store_LockBuffer)
    from add_left_items_append [OF assms(2) h3 h4] show ?thesis by (rule conjunct2)
  qed
  finally show ?thesis by (simp only: s4)
qed

theorem merged_right_page_appends_left_entries_witness:
  "fst (execute_merge 1 2 small_index) \<and>
   \<not> pd_has_free_lines (store small_index 2) \<and>
   pd_lower (store small_index 2) + bytes_needed (store small_index 1) (left_live_offsets (store small_index 1))
           \<le> pd_upper (store small_index 2) \<and>
   pd_linp (store (snd (execute_merge 1 2 small_index)) 2) =
     [data_item 16 40, data_item 16 30, data_item 16 10]"
proof -
  have a: "\<not> pd_has_free_lines (store small_index 2)"
    "pd_lower (store small_index 2) + bytes_needed (store small_index 1) (left_live_offsets (store small_index 1))
           \<le> pd_upper (store small_index 2)"
    by (simp_all add: small_index_def example_defs page_defs bytes_needed_def left_live_offsets_def)
  have b: "(1::nat) \<noteq> 2" by simp
  have c: "pd_linp (store small_index 2) @
           map (\<lambda>offnum. moved_item (PageGetItemId (store small_index 1) offnum))
               (left_live_offsets (store small_index 1)) = [data_item 16 40, data_item 16 30, data_item 16 10]"
    by (simp add: small_index_def example_defs page_defs moved_item_def left_live_offsets_def)
  from merged_right_page_appends_left_entries [OF small_merge_succeeds b a] a small_merge_succeeds c show ?thesis by simp
qed

lemma overflow_after:
  "store (snd (execute_merge 1 2 overflow_index)) =
     (store overflow_index)
       (2 := leaf [data_item 2144 90, data_item 2000 10, data_item 2000 20] 0 3,
        1 := half_dead_leaf [\<lparr>lp_flags = LP_NORMAL, lp_len = 8, lp_tuple = trunctuple\<rparr>] 0 2)"
  by (simp add: merge_defs Let_def overflow_index_def example_defs page_defs half_dead_leaf_def)

lemma overflow_after_nblocks: "nblocks (snd (execute_merge 1 2 overflow_index)) = 4"
  by (simp add: merge_defs Let_def overflow_index_def example_defs page_defs)

text \<open>
  C2. The capacity re-check counts tuple bytes only, while every entry added to the right
  page also takes a line pointer of 4 bytes. On \<open>overflow_index\<close> all validations pass
  and the re-check sees 6000 bytes needed against 6000 free; the third \<^verbatim>\<open>PageAddItem\<close>
  finds 1996 bytes between \<^verbatim>\<open>pd_lower\<close> and \<^verbatim>\<open>pd_upper\<close> where it needs 2004 and
  fails, the loop only logs that (lines 847-851), and the left page is emptied all the
  same. The merge reports success, also through the Execute entry point, and the index
  has one live entry fewer than before: the entry with key 30 is on no page.
\<close>

theorem merge_loses_entry_when_line_pointers_do_not_fit:
  "pages_and_links_valid 1 2 overflow_index \<and>
   used_bytes (store overflow_index 1) (P_FIRSTDATAKEY (store overflow_index 1))
       (PageGetMaxOffsetNumber (store overflow_index 1))
     + used_bytes (store overflow_index 2) (P_FIRSTDATAKEY (store overflow_index 2))
       (PageGetMaxOffsetNumber (store overflow_index 2)) = 6000 \<and>
   PageGetFreeSpace (store overflow_index 2) = 6000 \<and>
   fst (execute_merge 1 2 overflow_index) \<and>
   map_option fst (pg_index_reclaim_execute 50 True overflow_index) = Some (Inr (1, 2192)) \<and>
   pd_linp (store (snd (execute_merge 1 2 overflow_index)) 2)
     = [data_item 2144 90, data_item 2000 10, data_item 2000 20] \<and>
   P_ISHALFDEAD (store (snd (execute_merge 1 2 overflow_index)) 1) \<and>
   total_live_entries overflow_index = 4 \<and>
   total_live_entries (snd (execute_merge 1 2 overflow_index)) = 3"
proof -
  have v: "pages_and_links_valid 1 2 overflow_index"
    by (simp add: pages_and_links_valid_def Let_def overflow_index_def example_defs page_defs)
  have b: "used_bytes (store overflow_index 1) (P_FIRSTDATAKEY (store overflow_index 1))
       (PageGetMaxOffsetNumber (store overflow_index 1))
     + used_bytes (store overflow_index 2) (P_FIRSTDATAKEY (store overflow_index 2))
       (PageGetMaxOffsetNumber (store overflow_index 2)) = 6000"
      "PageGetFreeSpace (store overflow_index 2) = 6000"
    by (simp_all add: overflow_index_def example_defs page_defs)
  have m: "fst (execute_merge 1 2 overflow_index)"
    by (simp add: execute_merge_def Let_def store_LockBuffer overflow_index_def example_defs page_defs)
  have e: "map_option fst (pg_index_reclaim_execute 50 True overflow_index) = Some (Inr (1, 2192))"
    by (simp add: pg_index_reclaim_execute_def analysis_defs Let_def overflow_index_def example_defs
          page_defs execute_merge_def store_LockBuffer split: prod.splits)
  have r: "pd_linp (store (snd (execute_merge 1 2 overflow_index)) 2)
     = [data_item 2144 90, data_item 2000 10, data_item 2000 20]"
    unfolding overflow_after by (simp add: leaf_def)
  have h: "P_ISHALFDEAD (store (snd (execute_merge 1 2 overflow_index)) 1)"
    unfolding overflow_after by (simp add: half_dead_leaf_def leaf_def P_ISHALFDEAD_def)
  have t0: "total_live_entries overflow_index = 4"
    by (simp add: total_live_entries_def live_entries_def left_live_offsets_def overflow_index_def
          example_defs page_defs)
  have t1: "total_live_entries (snd (execute_merge 1 2 overflow_index)) = 3"
    unfolding total_live_entries_def overflow_after_nblocks overflow_after
    by (simp add: upt_conv_Cons live_entries_def left_live_offsets_def
          overflow_index_def example_defs page_defs half_dead_leaf_def)
  from v b m e r h t0 t1 show ?thesis by simp
qed

end
